theory Spec2Isabelle
  imports Complex_Main
begin

section \<open>The thruster controller of riptide\_controllers\<close>

text \<open>
  The development follows \<^verbatim>\<open>riptide_controllers/src/thruster_controller.cpp\<close>.
  A C++ \<^verbatim>\<open>double\<close> is read as a real number: the residual functors are templates over
  their scalar type \<^verbatim>\<open>T\<close>, and the properties below are properties of the formulas, not of
  rounding. The values that arrive in messages and from the transform listener are
  numbers. The one place where the program itself leaves the numbers is the quotient of
  zero by zero when a zero quaternion is normalised: the result is not-a-number, it is
  stored, and it spreads through every sum, product and quotient that reads it.
\<close>

subsection \<open>Doubles that may be not-a-number\<close>

text \<open>
  A double that a not-a-number can reach is a real number or \<open>NaN\<close>. Sums, differences,
  products and quotients of numbers are those of the reals; a quotient by zero and every
  operation with a \<open>NaN\<close> argument is \<open>NaN\<close>; a comparison with \<open>NaN\<close> is false. The
  infinities of the machine arithmetic are not modelled: the functors divide by the mass
  and the moments of inertia only, which are not zero.
\<close>

datatype double = Num real | NaN

instantiation double :: "{plus, minus, times, inverse, ord}"
begin

fun plus_double :: "double \<Rightarrow> double \<Rightarrow> double" where
  "plus_double (Num a) (Num b) = Num (a + b)"
| "plus_double _ _ = NaN"

fun minus_double :: "double \<Rightarrow> double \<Rightarrow> double" where
  "minus_double (Num a) (Num b) = Num (a - b)"
| "minus_double _ _ = NaN"

fun times_double :: "double \<Rightarrow> double \<Rightarrow> double" where
  "times_double (Num a) (Num b) = Num (a * b)"
| "times_double _ _ = NaN"

fun divide_double :: "double \<Rightarrow> double \<Rightarrow> double" where
  "divide_double (Num a) (Num b) = (if b = 0 then NaN else Num (a / b))"
| "divide_double _ _ = NaN"

fun inverse_double :: "double \<Rightarrow> double" where
  "inverse_double (Num a) = (if a = 0 then NaN else Num (inverse a))"
| "inverse_double NaN = NaN"

fun less_eq_double :: "double \<Rightarrow> double \<Rightarrow> bool" where
  "less_eq_double (Num a) (Num b) = (a \<le> b)"
| "less_eq_double _ _ = False"

fun less_double :: "double \<Rightarrow> double \<Rightarrow> bool" where
  "less_double (Num a) (Num b) = (a < b)"
| "less_double _ _ = False"

instance ..

end

fun is_number :: "double \<Rightarrow> bool" where
  "is_number (Num a) = True"
| "is_number NaN = False"

text \<open>The sum of a list of doubles.\<close>

fun sum_doubles :: "double list \<Rightarrow> double" where
  "sum_doubles [] = Num 0"
| "sum_doubles (r # rs) = r + sum_doubles rs"

subsection \<open>Vectors, quaternions and matrices\<close>

text \<open>\<^verbatim>\<open>struct vector { double x; double y; double z; }\<close>\<close>

record vector =
  x :: real
  y :: real
  z :: real

text \<open>
  \<^verbatim>\<open>tf::Vector3\<close>, \<^verbatim>\<open>tf::Quaternion\<close> and \<^verbatim>\<open>tf::Matrix3x3\<close> (three rows) with numbers as
  components. The message types \<^verbatim>\<open>geometry_msgs::Vector3\<close> and \<^verbatim>\<open>geometry_msgs::Quaternion\<close>
  carry the same components, and \<^verbatim>\<open>vector3MsgToTF\<close> copies them one by one.

  A quaternion or a matrix that the program computes has either numbers in all its
  components or not-a-number in all of them (every component comes out of the same
  quotient): it is a value of the option type, \<open>None\<close> standing for the quaternion or the
  matrix of not-a-numbers.
\<close>

datatype Vector3 = Vector3 (getX: real) (getY: real) (getZ: real)

datatype Quaternion = Quaternion (qx: real) (qy: real) (qz: real) (qw: real)

datatype Matrix3x3 = Matrix3x3 (row0: Vector3) (row1: Vector3) (row2: Vector3)

definition vector3MsgToTF :: "Vector3 \<Rightarrow> Vector3" where
  "vector3MsgToTF msg_v = Vector3 (getX msg_v) (getY msg_v) (getZ msg_v)"

text \<open>
  \<^verbatim>\<open>getRow(i)\<close> of a stored matrix, and \<^verbatim>\<open>x()\<close>, \<^verbatim>\<open>y()\<close>, \<^verbatim>\<open>z()\<close> of such a row: the rows and
  entries of the matrix of not-a-numbers are not-a-number.
\<close>

definition getRow :: "Matrix3x3 option \<Rightarrow> nat \<Rightarrow> Vector3 option" where
  "getRow M i =
     (case M of None \<Rightarrow> None
      | Some m \<Rightarrow> Some (if i = 0 then row0 m else if i = 1 then row1 m else row2 m))"

definition entry_x :: "Vector3 option \<Rightarrow> double" where
  "entry_x r = (case r of None \<Rightarrow> NaN | Some u \<Rightarrow> Num (getX u))"

definition entry_y :: "Vector3 option \<Rightarrow> double" where
  "entry_y r = (case r of None \<Rightarrow> NaN | Some u \<Rightarrow> Num (getY u))"

definition entry_z :: "Vector3 option \<Rightarrow> double" where
  "entry_z r = (case r of None \<Rightarrow> NaN | Some u \<Rightarrow> Num (getZ u))"

definition setIdentity :: Matrix3x3 where
  "setIdentity = Matrix3x3 (Vector3 1 0 0) (Vector3 0 1 0) (Vector3 0 0 1)"

definition setZero :: Vector3 where
  "setZero = Vector3 0 0 0"

definition dot :: "Vector3 \<Rightarrow> Vector3 \<Rightarrow> real" where
  "dot u v = getX u * getX v + getY u * getY v + getZ u * getZ v"

definition length2 :: "Quaternion \<Rightarrow> real" where
  "length2 q = qx q * qx q + qy q * qy q + qz q * qz q + qw q * qw q"

subsection \<open>Constants and global variables\<close>

definition MIN_THRUST :: real where "MIN_THRUST = - 5.0"
definition MAX_THRUST :: real where "MAX_THRUST = 5.0"
definition MASS :: real where "MASS = 34.47940950"
definition Ixx :: real where "Ixx = 1.335"
definition Iyy :: real where "Iyy = 1.501"
definition Izz :: real where "Izz = 0.6189"

text \<open>
  The file-scope variables that the residual functors read while the solver evaluates
  them: the rotation matrix, the angular velocity, the six acceleration commands and the
  thruster positions.
\<close>

record globals =
  rotation_matrix :: "Matrix3x3 option"
  ang_v :: Vector3
  cmdSurge :: real
  cmdSway :: real
  cmdHeave :: real
  cmdRoll :: real
  cmdPitch :: real
  cmdYaw :: real
  v_imu :: vector
  pos_surge_stbd_hi :: vector
  pos_surge_port_hi :: vector
  pos_surge_port_lo :: vector
  pos_surge_stbd_lo :: vector
  pos_sway_fwd :: vector
  pos_sway_aft :: vector
  pos_heave_port_aft :: vector
  pos_heave_stbd_aft :: vector
  pos_heave_stbd_fwd :: vector
  pos_heave_port_fwd :: vector

subsection \<open>The residual functors\<close>

text \<open>
  Each functor is \<^verbatim>\<open>operator()\<close> of the source, with its parameters in the source's order
  and the value stored in \<^verbatim>\<open>residual[0]\<close> as result. The three linear functors read the
  rotation matrix, which may hold not-a-numbers: their scalar type is \<open>double\<close>, and
  \<^verbatim>\<open>T(MASS)\<close> is \<open>Num MASS\<close>. The three angular functors read nothing that can be
  not-a-number: their scalar type is the reals.
\<close>

definition surge :: "globals \<Rightarrow> double \<Rightarrow> double \<Rightarrow> double \<Rightarrow> double \<Rightarrow> double
    \<Rightarrow> double \<Rightarrow> double \<Rightarrow> double \<Rightarrow> double \<Rightarrow> double \<Rightarrow> double" where
  "surge g surge_port_hi surge_stbd_hi surge_port_lo surge_stbd_lo sway_fwd sway_aft
      heave_port_fwd heave_stbd_fwd heave_port_aft heave_stbd_aft =
     (entry_x (getRow (rotation_matrix g) 0) * (surge_port_lo + surge_stbd_lo) +
      entry_z (getRow (rotation_matrix g) 0) * (heave_port_fwd + heave_stbd_fwd)) / Num MASS
     - Num (cmdSurge g)"

definition sway :: "globals \<Rightarrow> double \<Rightarrow> double \<Rightarrow> double \<Rightarrow> double \<Rightarrow> double
    \<Rightarrow> double \<Rightarrow> double \<Rightarrow> double \<Rightarrow> double \<Rightarrow> double \<Rightarrow> double" where
  "sway g surge_port_hi surge_stbd_hi surge_port_lo surge_stbd_lo sway_fwd sway_aft
      heave_port_fwd heave_stbd_fwd heave_port_aft heave_stbd_aft =
     (entry_x (getRow (rotation_matrix g) 1) * (surge_port_lo + surge_stbd_lo) +
      entry_z (getRow (rotation_matrix g) 1) * (heave_port_fwd + heave_stbd_fwd)) / Num MASS
     - Num (cmdSway g)"

definition heave :: "globals \<Rightarrow> double \<Rightarrow> double \<Rightarrow> double \<Rightarrow> double \<Rightarrow> double
    \<Rightarrow> double \<Rightarrow> double \<Rightarrow> double \<Rightarrow> double \<Rightarrow> double \<Rightarrow> double" where
  "heave g surge_port_hi surge_stbd_hi surge_port_lo surge_stbd_lo sway_fwd sway_aft
      heave_port_fwd heave_stbd_fwd heave_port_aft heave_stbd_aft =
     (entry_x (getRow (rotation_matrix g) 2) * (surge_port_lo + surge_stbd_lo) +
      entry_z (getRow (rotation_matrix g) 2) * (heave_port_fwd + heave_stbd_fwd)) / Num MASS
     - Num (cmdHeave g)"

definition roll :: "globals \<Rightarrow> real \<Rightarrow> real \<Rightarrow> real \<Rightarrow> real \<Rightarrow> real \<Rightarrow> real \<Rightarrow> real" where
  "roll g sway_fwd sway_aft heave_port_fwd heave_stbd_fwd heave_port_aft heave_stbd_aft =
     (heave_port_fwd * y (pos_heave_port_fwd g) + heave_stbd_fwd * y (pos_heave_stbd_fwd g) +
      Iyy * getY (ang_v g) * getZ (ang_v g) - Izz * getY (ang_v g) * getZ (ang_v g)) / Ixx
     - cmdRoll g"

definition pitch :: "globals \<Rightarrow> real \<Rightarrow> real \<Rightarrow> real \<Rightarrow> real \<Rightarrow> real \<Rightarrow> real \<Rightarrow> real \<Rightarrow> real
    \<Rightarrow> real" where
  "pitch g surge_port_hi surge_stbd_hi surge_port_lo surge_stbd_lo heave_port_fwd
      heave_stbd_fwd heave_port_aft heave_stbd_aft =
     (surge_port_lo * z (pos_surge_port_lo g) + surge_stbd_lo * z (pos_surge_stbd_lo g) +
      heave_port_fwd * (- x (pos_heave_port_fwd g)) +
      heave_stbd_fwd * (- x (pos_heave_stbd_fwd g)) +
      Izz * getX (ang_v g) * getZ (ang_v g) - Ixx * getX (ang_v g) * getZ (ang_v g)) / Iyy
     - cmdPitch g"

definition yaw :: "globals \<Rightarrow> real \<Rightarrow> real \<Rightarrow> real \<Rightarrow> real \<Rightarrow> real \<Rightarrow> real \<Rightarrow> real" where
  "yaw g surge_port_hi surge_stbd_hi surge_port_lo surge_stbd_lo sway_fwd sway_aft =
     (surge_port_lo * (- y (pos_surge_port_lo g)) +
      surge_stbd_lo * (- y (pos_surge_stbd_lo g)) +
      Ixx * getX (ang_v g) * getY (ang_v g) - Iyy * getX (ang_v g) * getY (ang_v g)) / Izz
     - cmdYaw g"

subsection \<open>The least-squares problem\<close>

text \<open>
  The ten unknown forces are members of the controller; the solver reaches them through
  their addresses. A \<open>thruster\<close> stands for the address of one unknown, and the unknowns
  are a store from addresses to values.
\<close>

datatype thruster =
  Surge_port_hi | Surge_stbd_hi | Surge_port_lo | Surge_stbd_lo | Sway_fwd | Sway_aft
  | Heave_port_fwd | Heave_stbd_fwd | Heave_port_aft | Heave_stbd_aft

definition thrusters :: "thruster list" where
  "thrusters = [Surge_port_hi, Surge_stbd_hi, Surge_port_lo, Surge_stbd_lo, Sway_fwd,
     Sway_aft, Heave_port_fwd, Heave_stbd_fwd, Heave_port_aft, Heave_stbd_aft]"

text \<open>
  \<^verbatim>\<open>ceres::AutoDiffCostFunction<F, 1, 1, ..., 1>\<close> hands the values of the parameter blocks
  of a residual block to the functor, in the order in which the block lists them. The
  number of blocks is fixed by the template arguments, so the list always has that length.
  The unknowns are numbers and the residual is a double: the cost function of ten blocks
  wraps a functor over the doubles, those of eight and of six blocks a functor over the
  reals.
\<close>

definition AutoDiffCostFunction10 :: "(globals \<Rightarrow> double \<Rightarrow> double \<Rightarrow> double \<Rightarrow> double
    \<Rightarrow> double \<Rightarrow> double \<Rightarrow> double \<Rightarrow> double \<Rightarrow> double \<Rightarrow> double \<Rightarrow> double)
    \<Rightarrow> globals \<Rightarrow> real list \<Rightarrow> double" where
  "AutoDiffCostFunction10 f g ps =
     f g (Num (ps ! 0)) (Num (ps ! 1)) (Num (ps ! 2)) (Num (ps ! 3)) (Num (ps ! 4))
       (Num (ps ! 5)) (Num (ps ! 6)) (Num (ps ! 7)) (Num (ps ! 8)) (Num (ps ! 9))"

definition AutoDiffCostFunction8 :: "(globals \<Rightarrow> real \<Rightarrow> real \<Rightarrow> real \<Rightarrow> real \<Rightarrow> real \<Rightarrow> real
    \<Rightarrow> real \<Rightarrow> real \<Rightarrow> real) \<Rightarrow> globals \<Rightarrow> real list \<Rightarrow> double" where
  "AutoDiffCostFunction8 f g ps =
     Num (f g (ps ! 0) (ps ! 1) (ps ! 2) (ps ! 3) (ps ! 4) (ps ! 5) (ps ! 6) (ps ! 7))"

definition AutoDiffCostFunction6 :: "(globals \<Rightarrow> real \<Rightarrow> real \<Rightarrow> real \<Rightarrow> real \<Rightarrow> real \<Rightarrow> real
    \<Rightarrow> real) \<Rightarrow> globals \<Rightarrow> real list \<Rightarrow> double" where
  "AutoDiffCostFunction6 f g ps =
     Num (f g (ps ! 0) (ps ! 1) (ps ! 2) (ps ! 3) (ps ! 4) (ps ! 5))"

datatype ResidualBlock =
  ResidualBlock (cost_function: "globals \<Rightarrow> real list \<Rightarrow> double")
    (parameter_blocks: "thruster list")

record Problem =
  residual_blocks :: "ResidualBlock list"
  lower_bounds :: "thruster \<Rightarrow> real option"
  upper_bounds :: "thruster \<Rightarrow> real option"

definition empty_Problem :: Problem where
  "empty_Problem = \<lparr>residual_blocks = [], lower_bounds = (\<lambda>p. None), upper_bounds = (\<lambda>p. None)\<rparr>"

definition AddResidualBlock :: "(globals \<Rightarrow> real list \<Rightarrow> double) \<Rightarrow> thruster list \<Rightarrow> Problem
    \<Rightarrow> Problem" where
  "AddResidualBlock cf ps P = P\<lparr>residual_blocks := residual_blocks P @ [ResidualBlock cf ps]\<rparr>"

definition SetParameterLowerBound :: "thruster \<Rightarrow> real \<Rightarrow> Problem \<Rightarrow> Problem" where
  "SetParameterLowerBound p b P = P\<lparr>lower_bounds := (lower_bounds P)(p \<mapsto> b)\<rparr>"

definition SetParameterUpperBound :: "thruster \<Rightarrow> real \<Rightarrow> Problem \<Rightarrow> Problem" where
  "SetParameterUpperBound p b P = P\<lparr>upper_bounds := (upper_bounds P)(p \<mapsto> b)\<rparr>"

datatype LinearSolverType = DENSE_QR | DENSE_NORMAL_CHOLESKY | SPARSE_NORMAL_CHOLESKY

datatype TerminationType = CONVERGENCE | NO_CONVERGENCE | FAILURE

record Options =
  max_num_iterations :: nat
  linear_solver_type :: LinearSolverType

record Summary =
  num_iterations :: nat
  termination_type :: TerminationType

text \<open>The value of one residual block at the unknowns \<open>v\<close>, and the residuals of a problem.\<close>

definition evaluate :: "ResidualBlock \<Rightarrow> globals \<Rightarrow> (thruster \<Rightarrow> real) \<Rightarrow> double" where
  "evaluate b g v = cost_function b g (map v (parameter_blocks b))"

definition residuals :: "Problem \<Rightarrow> globals \<Rightarrow> (thruster \<Rightarrow> real) \<Rightarrow> double list" where
  "residuals P g v = map (\<lambda>b. evaluate b g v) (residual_blocks P)"

definition cost :: "Problem \<Rightarrow> globals \<Rightarrow> (thruster \<Rightarrow> real) \<Rightarrow> double" where
  "cost P g v = sum_doubles (map (\<lambda>r. r * r) (residuals P g v)) / Num 2"

definition feasible :: "Problem \<Rightarrow> (thruster \<Rightarrow> real) \<Rightarrow> bool" where
  "feasible P v =
     list_all (\<lambda>p. (case lower_bounds P p of None \<Rightarrow> True | Some l \<Rightarrow> l \<le> v p) \<and>
                   (case upper_bounds P p of None \<Rightarrow> True | Some u \<Rightarrow> v p \<le> u)) thrusters"

subsection \<open>The solver\<close>

text \<open>
  Modelled from the spec: \<^verbatim>\<open>ceres::Solve\<close>, the least-squares solver of the Ceres library,
  which the controller calls and the repository does not contain. The spec asks for a
  least-squares minimisation started from the given point, under a hard cap on the number
  of iterations, that clips or projects every force onto its bounds and returns the best
  point found when the cap is reached. The model is a projected descent on half the sum of
  the squared residuals: a step along the negative gradient is clipped to the bounds and is
  taken only if it lowers the cost; a rejected step halves the step length; the iteration
  stops when the clipped step leaves every unknown where it is, or at the cap. The
  derivative of a residual with respect to one unknown is its change under a unit
  increment of that unknown, which is the exact derivative of a residual that is affine in
  the unknowns. A start outside the bounds, or at which the cost is not a number, is
  refused and the unknowns are left alone; a step that is not a number is not taken, and
  a point whose cost is not a number is never accepted.
\<close>

definition jacobian :: "ResidualBlock \<Rightarrow> globals \<Rightarrow> (thruster \<Rightarrow> real) \<Rightarrow> thruster \<Rightarrow> double"
  where
  "jacobian b g v p = evaluate b g (v(p := v p + 1)) - evaluate b g v"

text \<open>
  Modelled from the spec: the gradient of half the sum of the squared residuals, used by
  the solver that stands for \<^verbatim>\<open>ceres::Solve\<close>.
\<close>

definition gradient :: "Problem \<Rightarrow> globals \<Rightarrow> (thruster \<Rightarrow> real) \<Rightarrow> thruster \<Rightarrow> double" where
  "gradient P g v p =
     sum_doubles (map (\<lambda>b. evaluate b g v * jacobian b g v p) (residual_blocks P))"

text \<open>
  Modelled from the spec: the projection of one unknown onto its bounds (clip or project,
  so that the bound is respected exactly); an unknown without a bound is left as it is.
\<close>

definition clip :: "Problem \<Rightarrow> thruster \<Rightarrow> real \<Rightarrow> real" where
  "clip P p t =
     (let t1 = (case lower_bounds P p of None \<Rightarrow> t | Some l \<Rightarrow> max l t)
      in case upper_bounds P p of None \<Rightarrow> t1 | Some u \<Rightarrow> min u t1)"

text \<open>
  Modelled from the spec: the ten unknowns are ten stored numbers; \<open>tabulate\<close> computes the
  value of each unknown once and stores it.
\<close>

definition tabulate :: "(thruster \<Rightarrow> real) \<Rightarrow> thruster \<Rightarrow> real" where
  "tabulate f = fold (\<lambda>p w. w(p := f p)) thrusters (\<lambda>p. 0)"

text \<open>
  Modelled from the spec: the point that one iteration of the solver proposes, a gradient
  step of length \<open>mu\<close> clipped to the bounds; an unknown whose step is not a number stays
  where it is.
\<close>

definition candidate :: "real \<Rightarrow> Problem \<Rightarrow> globals \<Rightarrow> (thruster \<Rightarrow> real) \<Rightarrow> thruster \<Rightarrow> real" where
  "candidate mu P g v =
     tabulate (\<lambda>p. case Num (v p) - Num mu * gradient P g v p of
                     Num t \<Rightarrow> clip P p t
                   | NaN \<Rightarrow> v p)"

text \<open>
  Modelled from the spec: the iteration of the solver under its hard cap. The first
  argument is the number of iterations still allowed, the second the number used so far.
\<close>

fun minimize :: "nat \<Rightarrow> nat \<Rightarrow> real \<Rightarrow> Problem \<Rightarrow> globals \<Rightarrow> (thruster \<Rightarrow> real)
    \<Rightarrow> (thruster \<Rightarrow> real) \<times> Summary" where
  "minimize 0 k mu P g v = (v, \<lparr>num_iterations = k, termination_type = NO_CONVERGENCE\<rparr>)"
| "minimize (Suc n) k mu P g v =
     (if list_all (\<lambda>p. candidate mu P g v p = v p) thrusters
      then (v, \<lparr>num_iterations = k, termination_type = CONVERGENCE\<rparr>)
      else if cost P g (candidate mu P g v) < cost P g v
      then minimize n (Suc k) mu P g (candidate mu P g v)
      else minimize n (Suc k) (mu / 2) P g v)"

text \<open>
  Modelled from the spec: \<^verbatim>\<open>ceres::Solve\<close> itself, which returns the unknowns and the
  summary.
\<close>

definition Solve :: "Options \<Rightarrow> Problem \<Rightarrow> globals \<Rightarrow> (thruster \<Rightarrow> real)
    \<Rightarrow> (thruster \<Rightarrow> real) \<times> Summary" where
  "Solve opts P g v =
     (if feasible P v \<and> is_number (cost P g v)
      then minimize (max_num_iterations opts) 0 1 P g v
      else (v, \<lparr>num_iterations = 0, termination_type = FAILURE\<rparr>))"

subsection \<open>Messages and the controller\<close>

text \<open>
  \<^verbatim>\<open>geometry_msgs::Accel\<close>, the fields of \<^verbatim>\<open>sensor_msgs::Imu\<close> that the controller reads,
  and \<^verbatim>\<open>riptide_msgs::ThrustStamped\<close>.
\<close>

record Accel =
  accel_linear :: Vector3
  accel_angular :: Vector3

record Imu =
  orientation :: Quaternion
  angular_velocity :: Vector3

record Thrust =
  surge_stbd_hi :: real
  surge_port_hi :: real
  surge_port_lo :: real
  surge_stbd_lo :: real
  sway_fwd :: real
  sway_aft :: real
  heave_port_aft :: real
  heave_stbd_aft :: real
  heave_stbd_fwd :: real
  heave_port_fwd :: real

record Header =
  frame_id :: string
  stamp :: nat

record ThrustStamped =
  header :: Header
  force :: Thrust

text \<open>
  The controller object together with the file-scope variables \<open>glob\<close> it works on.
  \<open>vars\<close> holds the ten unknown forces, \<open>cmd_pub\<close> the messages published on
  \<^verbatim>\<open>command/thrust\<close>, oldest first.
\<close>

record ThrusterController =
  glob :: globals
  vars :: "thruster \<Rightarrow> real"
  thrust :: ThrustStamped
  problem :: Problem
  options :: Options
  summary :: Summary
  cmd_pub :: "ThrustStamped list"

text \<open>
  \<^verbatim>\<open>get_transform\<close> copies the origin of a transform. The transform listener is a function
  from the name of a link to the origin of its transform relative to \<^verbatim>\<open>/base_link\<close>; a
  lookup that throws ends the process before any event is handled.
  The problem is set up by the calls of the constructor, in the order of the source.
\<close>

definition get_transform :: "Vector3 \<Rightarrow> vector" where
  "get_transform origin = \<lparr>x = getX origin, y = getY origin, z = getZ origin\<rparr>"

definition problem_setup :: Problem where
  "problem_setup = fold (\<lambda>f. f)
     [AddResidualBlock (AutoDiffCostFunction10 surge)
        [Surge_port_hi, Surge_stbd_hi, Surge_port_lo, Surge_stbd_lo, Sway_fwd, Sway_aft,
         Heave_port_fwd, Heave_stbd_fwd, Heave_port_aft, Heave_stbd_aft],
      AddResidualBlock (AutoDiffCostFunction10 sway)
        [Surge_port_hi, Surge_stbd_hi, Surge_port_lo, Surge_stbd_lo, Sway_fwd, Sway_aft,
         Heave_port_fwd, Heave_stbd_fwd, Heave_port_aft, Heave_stbd_aft],
      AddResidualBlock (AutoDiffCostFunction10 heave)
        [Surge_port_hi, Surge_stbd_hi, Surge_port_lo, Surge_stbd_lo, Sway_fwd, Sway_aft,
         Heave_port_fwd, Heave_stbd_fwd, Heave_stbd_aft, Heave_port_aft],
      AddResidualBlock (AutoDiffCostFunction6 roll)
        [Sway_fwd, Sway_aft, Heave_port_fwd, Heave_stbd_fwd, Heave_port_aft, Heave_stbd_aft],
      AddResidualBlock (AutoDiffCostFunction8 pitch)
        [Surge_port_hi, Surge_stbd_hi, Surge_port_lo, Surge_stbd_lo, Heave_port_fwd,
         Heave_stbd_fwd, Heave_port_aft, Heave_stbd_aft],
      AddResidualBlock (AutoDiffCostFunction6 yaw)
        [Surge_port_hi, Surge_stbd_hi, Surge_port_lo, Surge_stbd_lo, Sway_fwd, Sway_aft],
      SetParameterLowerBound Surge_port_hi MIN_THRUST,
      SetParameterUpperBound Surge_port_hi MAX_THRUST,
      SetParameterLowerBound Surge_stbd_hi MIN_THRUST,
      SetParameterUpperBound Surge_stbd_hi MAX_THRUST,
      SetParameterLowerBound Surge_port_lo MIN_THRUST,
      SetParameterUpperBound Surge_port_lo MAX_THRUST,
      SetParameterLowerBound Surge_stbd_lo MIN_THRUST,
      SetParameterUpperBound Surge_stbd_lo MAX_THRUST,
      SetParameterLowerBound Sway_fwd MIN_THRUST,
      SetParameterUpperBound Sway_fwd MAX_THRUST,
      SetParameterLowerBound Sway_aft MIN_THRUST,
      SetParameterUpperBound Sway_aft MAX_THRUST,
      SetParameterLowerBound Heave_port_fwd MIN_THRUST,
      SetParameterUpperBound Heave_port_fwd MAX_THRUST,
      SetParameterLowerBound Heave_stbd_fwd MIN_THRUST,
      SetParameterUpperBound Heave_stbd_fwd MAX_THRUST,
      SetParameterLowerBound Heave_port_aft MIN_THRUST,
      SetParameterUpperBound Heave_port_aft MAX_THRUST,
      SetParameterLowerBound Heave_stbd_aft MIN_THRUST,
      SetParameterUpperBound Heave_stbd_aft MAX_THRUST]
     empty_Problem"

text \<open>
  The constructor. The unknowns, the first time stamp and the summary are not initialised
  by the source; the model starts them at zero, and every command event overwrites them
  before it reads them. The options that the source does not set keep the defaults of
  the library and play no part here.
\<close>

definition ThrusterController_init :: "(string \<Rightarrow> Vector3) \<Rightarrow> ThrusterController" where
  "ThrusterController_init listener =
     \<lparr>glob = \<lparr>rotation_matrix = Some setIdentity, ang_v = setZero,
         cmdSurge = 0.0, cmdSway = 0.0, cmdHeave = 0.0,
         cmdRoll = 0.0, cmdPitch = 0.0, cmdYaw = 0.0,
         v_imu = get_transform (listener ''/imu_one_link''),
         pos_surge_stbd_hi = get_transform (listener ''/surge_stbd_hi_link''),
         pos_surge_port_hi = get_transform (listener ''/surge_port_hi_link''),
         pos_surge_port_lo = get_transform (listener ''/surge_port_lo_link''),
         pos_surge_stbd_lo = get_transform (listener ''/surge_stbd_lo_link''),
         pos_sway_fwd = get_transform (listener ''/sway_fwd_link''),
         pos_sway_aft = get_transform (listener ''/sway_aft_link''),
         pos_heave_port_aft = get_transform (listener ''/heave_port_aft_link''),
         pos_heave_stbd_aft = get_transform (listener ''/heave_stbd_aft_link''),
         pos_heave_stbd_fwd = get_transform (listener ''/heave_stbd_fwd_link''),
         pos_heave_port_fwd = get_transform (listener ''/heave_port_fwd_link'')\<rparr>,
      vars = (\<lambda>p. 0),
      thrust = \<lparr>header = \<lparr>frame_id = ''base_link'', stamp = 0\<rparr>,
         force = \<lparr>surge_stbd_hi = 0, surge_port_hi = 0, surge_port_lo = 0,
           surge_stbd_lo = 0, sway_fwd = 0, sway_aft = 0, heave_port_aft = 0,
           heave_stbd_aft = 0, heave_stbd_fwd = 0, heave_port_fwd = 0\<rparr>\<rparr>,
      problem = problem_setup,
      options = \<lparr>max_num_iterations = 100, linear_solver_type = DENSE_QR\<rparr>,
      summary = \<lparr>num_iterations = 0, termination_type = NO_CONVERGENCE\<rparr>,
      cmd_pub = []\<rparr>"

subsection \<open>The inertial event\<close>

text \<open>
  Modelled from the spec: \<^verbatim>\<open>tf::Quaternion::normalized\<close> of the tf library, which the
  handler calls and the repository does not contain. The orientation arrives as a
  quaternion and is stored as a rotation: the quaternion is divided by its length. When
  the quaternion is zero the length is zero and the source multiplies each zero component
  by the quotient of one by zero: every component of the result is not-a-number, which
  is the result \<open>None\<close> here.
\<close>

definition normalized :: "Quaternion \<Rightarrow> Quaternion option" where
  "normalized q =
     (if sqrt (length2 q) = 0 then None
      else Some (Quaternion (qx q / sqrt (length2 q)) (qy q / sqrt (length2 q))
                   (qz q / sqrt (length2 q)) (qw q / sqrt (length2 q))))"

text \<open>
  Modelled from the spec: the tolerance of the tf library on the squared length of a
  quaternion that counts as normalised.
\<close>

definition QUATERNION_TOLERANCE :: real where
  "QUATERNION_TOLERANCE = 0.1"

text \<open>
  Modelled from the spec: \<^verbatim>\<open>quaternionMsgToTF\<close> of the tf library, absent from the
  repository. It copies the four components of the message and normalises the quaternion
  when its squared length is further than the tolerance from one.
\<close>

definition quaternionMsgToTF :: "Quaternion \<Rightarrow> Quaternion option" where
  "quaternionMsgToTF msg_q =
     (let bt = Quaternion (qx msg_q) (qy msg_q) (qz msg_q) (qw msg_q)
      in if \<bar>length2 bt - 1\<bar> > QUATERNION_TOLERANCE then normalized bt else Some bt)"

text \<open>
  Modelled from the spec: \<^verbatim>\<open>tf::Matrix3x3::setRotation\<close> of the tf library, absent from
  the repository: the usual rotation matrix of a quaternion \<open>(x, y, z, w)\<close>, scaled by
  \<open>2 / d\<close> where \<open>d\<close> is the squared length; every entry is not-a-number when \<open>d\<close> is zero.
\<close>

definition setRotation :: "Quaternion \<Rightarrow> Matrix3x3 option" where
  "setRotation q =
     (let d = length2 q in
      if d = 0 then None
      else
        (let s = 2 / d;
             xs = qx q * s; ys = qy q * s; zs = qz q * s;
             wx = qw q * xs; wy = qw q * ys; wz = qw q * zs;
             xx = qx q * xs; xy = qx q * ys; xz = qx q * zs;
             yy = qy q * ys; yz = qy q * zs; zz = qz q * zs
         in Some (Matrix3x3 (Vector3 (1 - (yy + zz)) (xy - wz) (xz + wy))
                            (Vector3 (xy + wz) (1 - (xx + zz)) (yz - wx))
                            (Vector3 (xz - wy) (yz + wx) (1 - (xx + yy))))))"

text \<open>
  \<^verbatim>\<open>ThrusterController::state\<close>. The handler has no test and no early return: it stores
  the matrix of the normalised quaternion and the angular velocity of the message,
  whatever they are. A quaternion of not-a-numbers normalises to not-a-numbers and gives
  the matrix of not-a-numbers, which is what \<open>Option.bind\<close> says.
\<close>

definition state :: "Imu \<Rightarrow> ThrusterController \<Rightarrow> ThrusterController" where
  "state msg c =
     (let tf = quaternionMsgToTF (orientation msg)
      in c\<lparr>glob := (glob c)
             \<lparr>rotation_matrix := Option.bind (Option.bind tf normalized) setRotation,
              ang_v := vector3MsgToTF (angular_velocity msg)\<rparr>\<rparr>)"

subsection \<open>The command event\<close>

text \<open>
  \<^verbatim>\<open>ThrusterController::callback\<close>, with the solver and the reading of the clock as
  parameters: the six commands are stored, the ten unknowns are set to zero, the solver
  runs once on the controller's problem, and the unknowns are copied into the message
  that is published.
\<close>

definition callback_with :: "(Options \<Rightarrow> Problem \<Rightarrow> globals \<Rightarrow> (thruster \<Rightarrow> real)
    \<Rightarrow> (thruster \<Rightarrow> real) \<times> Summary) \<Rightarrow> Accel \<Rightarrow> nat \<Rightarrow> ThrusterController \<Rightarrow> ThrusterController"
  where
  "callback_with solve a now c =
     (let g = (glob c)\<lparr>cmdSurge := getX (accel_linear a), cmdSway := getY (accel_linear a),
                cmdHeave := getZ (accel_linear a), cmdRoll := getX (accel_angular a),
                cmdPitch := getY (accel_angular a), cmdYaw := getZ (accel_angular a)\<rparr>;
          v0 = (vars c)(Surge_stbd_hi := 0.0, Surge_port_hi := 0.0, Surge_port_lo := 0.0,
                 Surge_stbd_lo := 0.0, Sway_fwd := 0.0, Sway_aft := 0.0,
                 Heave_port_aft := 0.0, Heave_stbd_aft := 0.0, Heave_stbd_fwd := 0.0,
                 Heave_port_fwd := 0.0);
          r = solve (options c) (problem c) g v0;
          v = fst r;
          t = \<lparr>header = (header (thrust c))\<lparr>stamp := now\<rparr>,
               force = \<lparr>surge_stbd_hi = v Surge_stbd_hi, surge_port_hi = v Surge_port_hi,
                 surge_port_lo = v Surge_port_lo, surge_stbd_lo = v Surge_stbd_lo,
                 sway_fwd = v Sway_fwd, sway_aft = v Sway_aft,
                 heave_port_aft = v Heave_port_aft, heave_stbd_aft = v Heave_stbd_aft,
                 heave_stbd_fwd = v Heave_stbd_fwd, heave_port_fwd = v Heave_port_fwd\<rparr>\<rparr>
      in c\<lparr>glob := g, vars := v, summary := snd r, thrust := t, cmd_pub := cmd_pub c @ [t]\<rparr>)"

definition callback :: "Accel \<Rightarrow> nat \<Rightarrow> ThrusterController \<Rightarrow> ThrusterController" where
  "callback = callback_with Solve"

subsection \<open>Notions used in the statements\<close>

text \<open>The six unknowns that no residual expression mentions.\<close>

definition unused :: "thruster \<Rightarrow> bool" where
  "unused p \<longleftrightarrow> p = Surge_port_hi \<or> p = Surge_stbd_hi \<or> p = Sway_fwd \<or> p = Sway_aft
     \<or> p = Heave_port_aft \<or> p = Heave_stbd_aft"

text \<open>Every force of a message lies between the two thrust limits.\<close>

definition within_bounds :: "Thrust \<Rightarrow> bool" where
  "within_bounds t \<longleftrightarrow>
     MIN_THRUST \<le> surge_stbd_hi t \<and> surge_stbd_hi t \<le> MAX_THRUST \<and>
     MIN_THRUST \<le> surge_port_hi t \<and> surge_port_hi t \<le> MAX_THRUST \<and>
     MIN_THRUST \<le> surge_port_lo t \<and> surge_port_lo t \<le> MAX_THRUST \<and>
     MIN_THRUST \<le> surge_stbd_lo t \<and> surge_stbd_lo t \<le> MAX_THRUST \<and>
     MIN_THRUST \<le> sway_fwd t \<and> sway_fwd t \<le> MAX_THRUST \<and>
     MIN_THRUST \<le> sway_aft t \<and> sway_aft t \<le> MAX_THRUST \<and>
     MIN_THRUST \<le> heave_port_aft t \<and> heave_port_aft t \<le> MAX_THRUST \<and>
     MIN_THRUST \<le> heave_stbd_aft t \<and> heave_stbd_aft t \<le> MAX_THRUST \<and>
     MIN_THRUST \<le> heave_stbd_fwd t \<and> heave_stbd_fwd t \<le> MAX_THRUST \<and>
     MIN_THRUST \<le> heave_port_fwd t \<and> heave_port_fwd t \<le> MAX_THRUST"

text \<open>The file-scope variables after the six assignments that open a command event.\<close>

definition store_command :: "Accel \<Rightarrow> globals \<Rightarrow> globals" where
  "store_command a g =
     g\<lparr>cmdSurge := getX (accel_linear a), cmdSway := getY (accel_linear a),
       cmdHeave := getZ (accel_linear a), cmdRoll := getX (accel_angular a),
       cmdPitch := getY (accel_angular a), cmdYaw := getZ (accel_angular a)\<rparr>"

text \<open>
  The states of the controller: the one the constructor leaves, and those that inertial
  and command events lead to.
\<close>

inductive reachable :: "(string \<Rightarrow> Vector3) \<Rightarrow> ThrusterController \<Rightarrow> bool"
  for listener :: "string \<Rightarrow> Vector3" where
  start: "reachable listener (ThrusterController_init listener)"
| inertial: "reachable listener c \<Longrightarrow> reachable listener (state msg c)"
| command: "reachable listener c \<Longrightarrow> reachable listener (callback a now c)"

text \<open>Concrete inputs: a geometry, two commands and the all-zero message.\<close>

definition origin_listener :: "string \<Rightarrow> Vector3" where
  "origin_listener link = Vector3 0 0 0"

definition surge_command :: Accel where
  "surge_command = \<lparr>accel_linear = Vector3 1.0 0 0, accel_angular = Vector3 0 0 0\<rparr>"

definition zero_command :: Accel where
  "zero_command = \<lparr>accel_linear = Vector3 0 0 0, accel_angular = Vector3 0 0 0\<rparr>"

definition zero_Thrust :: Thrust where
  "zero_Thrust = \<lparr>surge_stbd_hi = 0, surge_port_hi = 0, surge_port_lo = 0, surge_stbd_lo = 0,
     sway_fwd = 0, sway_aft = 0, heave_port_aft = 0, heave_stbd_aft = 0, heave_stbd_fwd = 0,
     heave_port_fwd = 0\<rparr>"

definition zero_orientation :: Imu where
  "zero_orientation = \<lparr>orientation = Quaternion 0 0 0 0, angular_velocity = Vector3 0 0 0\<rparr>"

text \<open>
  A matrix is a rotation when its rows are orthonormal and its determinant is one.
\<close>

definition determinant :: "Matrix3x3 \<Rightarrow> real" where
  "determinant m =
     getX (row0 m) * (getY (row1 m) * getZ (row2 m) - getZ (row1 m) * getY (row2 m))
     - getY (row0 m) * (getX (row1 m) * getZ (row2 m) - getZ (row1 m) * getX (row2 m))
     + getZ (row0 m) * (getX (row1 m) * getY (row2 m) - getY (row1 m) * getX (row2 m))"

definition is_rotation :: "Matrix3x3 \<Rightarrow> bool" where
  "is_rotation m \<longleftrightarrow>
     dot (row0 m) (row0 m) = 1 \<and> dot (row1 m) (row1 m) = 1 \<and> dot (row2 m) (row2 m) = 1 \<and>
     dot (row0 m) (row1 m) = 0 \<and> dot (row0 m) (row2 m) = 0 \<and> dot (row1 m) (row2 m) = 0 \<and>
     determinant m = 1"

text \<open>
  The component of a mounting direction along a row of the stored matrix, not-a-number
  when the row is.
\<close>

definition projection :: "Vector3 option \<Rightarrow> Vector3 \<Rightarrow> double" where
  "projection r d = (case r of None \<Rightarrow> NaN | Some u \<Rightarrow> Num (dot u d))"

text \<open>
  The net force of claim C2 along one axis, as the claim words it: the sum over the ten
  thrusters of the force times the component of the thruster's mounting direction along
  that axis, the axis being a row of the rotation matrix.
\<close>

definition spec_net_force :: "Matrix3x3 option \<Rightarrow> (thruster \<Rightarrow> Vector3) \<Rightarrow> nat
    \<Rightarrow> (thruster \<Rightarrow> real) \<Rightarrow> double" where
  "spec_net_force R mounting axis f =
     sum_doubles (map (\<lambda>p. Num (f p) * projection (getRow R axis) (mounting p)) thrusters)"

text \<open>
  The mounting the names of the thrusters stand for: surge thrusters push along the body
  \<open>x\<close> axis, sway thrusters along \<open>y\<close>, heave thrusters along \<open>z\<close>.
\<close>

fun nominal_mounting :: "thruster \<Rightarrow> Vector3" where
  "nominal_mounting Surge_port_hi = Vector3 1 0 0"
| "nominal_mounting Surge_stbd_hi = Vector3 1 0 0"
| "nominal_mounting Surge_port_lo = Vector3 1 0 0"
| "nominal_mounting Surge_stbd_lo = Vector3 1 0 0"
| "nominal_mounting Sway_fwd = Vector3 0 1 0"
| "nominal_mounting Sway_aft = Vector3 0 1 0"
| "nominal_mounting Heave_port_fwd = Vector3 0 0 1"
| "nominal_mounting Heave_stbd_fwd = Vector3 0 0 1"
| "nominal_mounting Heave_port_aft = Vector3 0 0 1"
| "nominal_mounting Heave_stbd_aft = Vector3 0 0 1"

text \<open>
  The directions that the three linear functors give the thrusters: the two lower surge
  thrusters along \<open>x\<close>, the two forward heave thrusters along \<open>z\<close>, and no direction at
  all for the other six.
\<close>

fun used_mounting :: "thruster \<Rightarrow> Vector3" where
  "used_mounting Surge_port_lo = Vector3 1 0 0"
| "used_mounting Surge_stbd_lo = Vector3 1 0 0"
| "used_mounting Heave_port_fwd = Vector3 0 0 1"
| "used_mounting Heave_stbd_fwd = Vector3 0 0 1"
| "used_mounting p = Vector3 0 0 0"

definition lateral_only :: "thruster \<Rightarrow> real" where
  "lateral_only p = (if p = Sway_fwd \<or> p = Sway_aft then 1 else 0)"

text \<open>
  What claim C7 asks of a rejected event: the file-scope variables, the last message and
  the published messages are those of before.
\<close>

definition retained :: "ThrusterController \<Rightarrow> ThrusterController \<Rightarrow> bool" where
  "retained c c' \<longleftrightarrow> glob c' = glob c \<and> thrust c' = thrust c \<and> cmd_pub c' = cmd_pub c"

definition out_of_range_command :: Accel where
  "out_of_range_command = \<lparr>accel_linear = Vector3 (10 ^ 30) 0 0, accel_angular = Vector3 0 0 0\<rparr>"

definition out_of_range_imu :: Imu where
  "out_of_range_imu =
     \<lparr>orientation = Quaternion 0 0 0 1, angular_velocity = Vector3 (10 ^ 30) 0 0\<rparr>"

declare minimize.simps [simp del]

section \<open>Properties\<close>

lemma residual_blocks_setup: "residual_blocks problem_setup =
  [ResidualBlock (AutoDiffCostFunction10 surge)
        [Surge_port_hi, Surge_stbd_hi, Surge_port_lo, Surge_stbd_lo, Sway_fwd, Sway_aft,
         Heave_port_fwd, Heave_stbd_fwd, Heave_port_aft, Heave_stbd_aft],
   ResidualBlock (AutoDiffCostFunction10 sway)
        [Surge_port_hi, Surge_stbd_hi, Surge_port_lo, Surge_stbd_lo, Sway_fwd, Sway_aft,
         Heave_port_fwd, Heave_stbd_fwd, Heave_port_aft, Heave_stbd_aft],
   ResidualBlock (AutoDiffCostFunction10 heave)
        [Surge_port_hi, Surge_stbd_hi, Surge_port_lo, Surge_stbd_lo, Sway_fwd, Sway_aft,
         Heave_port_fwd, Heave_stbd_fwd, Heave_stbd_aft, Heave_port_aft],
   ResidualBlock (AutoDiffCostFunction6 roll)
        [Sway_fwd, Sway_aft, Heave_port_fwd, Heave_stbd_fwd, Heave_port_aft, Heave_stbd_aft],
   ResidualBlock (AutoDiffCostFunction8 pitch)
        [Surge_port_hi, Surge_stbd_hi, Surge_port_lo, Surge_stbd_lo, Heave_port_fwd,
         Heave_stbd_fwd, Heave_port_aft, Heave_stbd_aft],
   ResidualBlock (AutoDiffCostFunction6 yaw)
        [Surge_port_hi, Surge_stbd_hi, Surge_port_lo, Surge_stbd_lo, Sway_fwd, Sway_aft]]"
  by (simp add: problem_setup_def AddResidualBlock_def SetParameterLowerBound_def
      SetParameterUpperBound_def empty_Problem_def)

lemma lower_bounds_setup: "lower_bounds problem_setup p = Some MIN_THRUST"
  by (cases p) (simp_all add: problem_setup_def AddResidualBlock_def SetParameterLowerBound_def
      SetParameterUpperBound_def empty_Problem_def)

lemma upper_bounds_setup: "upper_bounds problem_setup p = Some MAX_THRUST"
  by (cases p) (simp_all add: problem_setup_def AddResidualBlock_def SetParameterLowerBound_def
      SetParameterUpperBound_def empty_Problem_def)

lemma residuals_setup:
  "residuals problem_setup g v =
    [surge g (Num (v Surge_port_hi)) (Num (v Surge_stbd_hi)) (Num (v Surge_port_lo))
       (Num (v Surge_stbd_lo)) (Num (v Sway_fwd)) (Num (v Sway_aft)) (Num (v Heave_port_fwd))
       (Num (v Heave_stbd_fwd)) (Num (v Heave_port_aft)) (Num (v Heave_stbd_aft)),
     sway g (Num (v Surge_port_hi)) (Num (v Surge_stbd_hi)) (Num (v Surge_port_lo))
       (Num (v Surge_stbd_lo)) (Num (v Sway_fwd)) (Num (v Sway_aft)) (Num (v Heave_port_fwd))
       (Num (v Heave_stbd_fwd)) (Num (v Heave_port_aft)) (Num (v Heave_stbd_aft)),
     heave g (Num (v Surge_port_hi)) (Num (v Surge_stbd_hi)) (Num (v Surge_port_lo))
       (Num (v Surge_stbd_lo)) (Num (v Sway_fwd)) (Num (v Sway_aft)) (Num (v Heave_port_fwd))
       (Num (v Heave_stbd_fwd)) (Num (v Heave_stbd_aft)) (Num (v Heave_port_aft)),
     Num (roll g (v Sway_fwd) (v Sway_aft) (v Heave_port_fwd) (v Heave_stbd_fwd)
       (v Heave_port_aft) (v Heave_stbd_aft)),
     Num (pitch g (v Surge_port_hi) (v Surge_stbd_hi) (v Surge_port_lo) (v Surge_stbd_lo)
       (v Heave_port_fwd) (v Heave_stbd_fwd) (v Heave_port_aft) (v Heave_stbd_aft)),
     Num (yaw g (v Surge_port_hi) (v Surge_stbd_hi) (v Surge_port_lo) (v Surge_stbd_lo)
       (v Sway_fwd) (v Sway_aft))]"
  by (simp add: residuals_def residual_blocks_setup evaluate_def AutoDiffCostFunction10_def
      AutoDiffCostFunction8_def AutoDiffCostFunction6_def)

lemma MASS_nonzero: "MASS \<noteq> 0"
  by (simp add: MASS_def)

lemma linear_number:
  assumes "rotation_matrix g = Some m"
  shows "surge g (Num a1) (Num a2) (Num a3) (Num a4) (Num a5) (Num a6) (Num a7) (Num a8)
           (Num a9) (Num a10) =
         Num ((getX (row0 m) * (a3 + a4) + getZ (row0 m) * (a7 + a8)) / MASS - cmdSurge g)"
    and "sway g (Num a1) (Num a2) (Num a3) (Num a4) (Num a5) (Num a6) (Num a7) (Num a8)
           (Num a9) (Num a10) =
         Num ((getX (row1 m) * (a3 + a4) + getZ (row1 m) * (a7 + a8)) / MASS - cmdSway g)"
    and "heave g (Num a1) (Num a2) (Num a3) (Num a4) (Num a5) (Num a6) (Num a7) (Num a8)
           (Num a9) (Num a10) =
         Num ((getX (row2 m) * (a3 + a4) + getZ (row2 m) * (a7 + a8)) / MASS - cmdHeave g)"
  using assms
  by (simp_all add: surge_def sway_def heave_def getRow_def entry_x_def entry_z_def
      MASS_nonzero)

lemma linear_nan:
  assumes "rotation_matrix g = None"
  shows "surge g b1 b2 b3 b4 b5 b6 b7 b8 b9 b10 = NaN"
    and "sway g b1 b2 b3 b4 b5 b6 b7 b8 b9 b10 = NaN"
    and "heave g b1 b2 b3 b4 b5 b6 b7 b8 b9 b10 = NaN"
  using assms
  by (simp_all add: surge_def sway_def heave_def getRow_def entry_x_def entry_z_def)

text \<open>
  Claim C5. For every angular velocity \<open>(wx, wy, wz)\<close> the roll, pitch and yaw residuals are
  the residuals at zero angular velocity plus exactly the gyroscopic cross terms
  \<open>(Iyy - Izz) * wy * wz / Ixx\<close>, \<open>(Izz - Ixx) * wx * wz / Iyy\<close> and
  \<open>(Ixx - Iyy) * wx * wy / Izz\<close>.
\<close>

theorem gyroscopic_cross_terms:
  "roll (g\<lparr>ang_v := Vector3 wx wy wz\<rparr>) a1 a2 a3 a4 a5 a6 =
     roll (g\<lparr>ang_v := setZero\<rparr>) a1 a2 a3 a4 a5 a6 + (Iyy - Izz) * wy * wz / Ixx
   \<and> pitch (g\<lparr>ang_v := Vector3 wx wy wz\<rparr>) b1 b2 b3 b4 b5 b6 b7 b8 =
     pitch (g\<lparr>ang_v := setZero\<rparr>) b1 b2 b3 b4 b5 b6 b7 b8 + (Izz - Ixx) * wx * wz / Iyy
   \<and> yaw (g\<lparr>ang_v := Vector3 wx wy wz\<rparr>) c1 c2 c3 c4 c5 c6 =
     yaw (g\<lparr>ang_v := setZero\<rparr>) c1 c2 c3 c4 c5 c6 + (Ixx - Iyy) * wx * wy / Izz"
  by (simp add: roll_def pitch_def yaw_def setZero_def add_divide_distrib diff_divide_distrib
      algebra_simps)

text \<open>
  Claim C6. For fixed rotation matrix, angular velocity and command, each of the six
  residuals of the controller's problem is affine in the ten unknown forces: the
  residuals at \<open>a * u + (1 - a) * v\<close> are \<open>a\<close> times the residuals at \<open>u\<close> plus \<open>1 - a\<close>
  times the residuals at \<open>v\<close>, also where the rotation matrix holds not-a-numbers and the
  linear residuals are not-a-number on both sides.
\<close>

theorem residuals_affine:
  "residuals problem_setup g (\<lambda>p. a * u p + (1 - a) * v p) =
     map2 (\<lambda>ru rv. Num a * ru + Num (1 - a) * rv) (residuals problem_setup g u)
       (residuals problem_setup g v)"
proof (cases "rotation_matrix g")
  case None
  then show ?thesis
    by (simp add: residuals_setup linear_nan roll_def pitch_def yaw_def
        add_divide_distrib diff_divide_distrib algebra_simps)
next
  case (Some m)
  then show ?thesis
    by (simp add: residuals_setup linear_number roll_def pitch_def yaw_def
        add_divide_distrib diff_divide_distrib algebra_simps)
qed

lemma thrusters_complete: "p \<in> set thrusters"
  by (cases p) (simp_all add: thrusters_def)

lemma feasible_iff:
  "feasible P v \<longleftrightarrow>
     (\<forall>p. (case lower_bounds P p of None \<Rightarrow> True | Some l \<Rightarrow> l \<le> v p) \<and>
          (case upper_bounds P p of None \<Rightarrow> True | Some u \<Rightarrow> v p \<le> u))"
  unfolding feasible_def list_all_iff using thrusters_complete by blast

lemma feasible_setup:
  "feasible problem_setup v \<longleftrightarrow> (\<forall>p. MIN_THRUST \<le> v p \<and> v p \<le> MAX_THRUST)"
  by (simp add: feasible_iff lower_bounds_setup upper_bounds_setup)

lemma clip_setup:
  "MIN_THRUST \<le> clip problem_setup p t \<and> clip problem_setup p t \<le> MAX_THRUST"
  by (simp add: clip_def lower_bounds_setup upper_bounds_setup MIN_THRUST_def MAX_THRUST_def)

lemma tabulate_id: "tabulate f = f"
proof
  fix p show "tabulate f p = f p"
    by (cases p) (simp_all add: tabulate_def thrusters_def)
qed

lemma candidate_feasible:
  "feasible problem_setup v \<Longrightarrow> feasible problem_setup (candidate mu problem_setup g v)"
  by (simp add: feasible_setup candidate_def tabulate_id clip_setup split: double.splits)

lemma minimize_feasible:
  "feasible problem_setup v \<Longrightarrow> feasible problem_setup (fst (minimize n k mu problem_setup g v))"
proof (induction n arbitrary: k mu v)
  case 0
  then show ?case by (simp add: minimize.simps)
next
  case (Suc n)
  then show ?case by (simp add: minimize.simps candidate_feasible)
qed

lemma Solve_feasible:
  "feasible problem_setup v \<Longrightarrow> feasible problem_setup (fst (Solve opts problem_setup g v))"
  by (simp add: Solve_def minimize_feasible)

lemma sum_squares:
  "sum_doubles (map (\<lambda>r. r * r) rs) = NaN \<or> (\<exists>c\<ge>0. sum_doubles (map (\<lambda>r. r * r) rs) = Num c)"
proof (induction rs)
  case Nil
  show ?case by simp
next
  case (Cons r rs)
  show ?case
  proof (cases r)
    case (Num a)
    with Cons show ?thesis by auto
  next
    case NaN
    then show ?thesis by simp
  qed
qed

lemma cost_cases: "cost P g v = NaN \<or> (\<exists>c\<ge>0. cost P g v = Num c)"
proof -
  consider "sum_doubles (map (\<lambda>r. r * r) (residuals P g v)) = NaN"
    | c where "0 \<le> c" and "sum_doubles (map (\<lambda>r. r * r) (residuals P g v)) = Num c"
    using sum_squares [of "residuals P g v"] by blast
  then show ?thesis
  proof cases
    case 1
    then show ?thesis by (simp add: cost_def)
  next
    case 2
    then have "cost P g v = Num (c / 2)" and "0 \<le> c / 2" by (simp_all add: cost_def)
    then show ?thesis by blast
  qed
qed

lemma cost_not_negative: "\<not> cost P g v < Num 0"
  using cost_cases [of P g v] by auto

lemma less_double_irrefl: "\<not> (a::double) < a"
  by (cases a) simp_all

lemma less_double_step: "(a::double) < b \<Longrightarrow> \<not> a < c \<Longrightarrow> \<not> b < c"
  by (cases a; cases b; cases c) simp_all

lemma minimize_zero_cost: "cost P g v = Num 0 \<Longrightarrow> fst (minimize n k mu P g v) = v"
proof (induction n arbitrary: k mu)
  case 0
  then show ?case by (simp add: minimize.simps)
next
  case (Suc n)
  have "\<not> cost P g (candidate mu P g v) < cost P g v"
    using Suc.prems cost_not_negative [of P g "candidate mu P g v"] by simp
  then show ?case using Suc by (simp add: minimize.simps)
qed

lemma minimize_descent: "\<not> cost P g v < cost P g (fst (minimize n k mu P g v))"
proof (induction n arbitrary: k mu v)
  case 0
  then show ?case by (simp add: minimize.simps less_double_irrefl)
next
  case (Suc n)
  show ?case
  proof (cases "list_all (\<lambda>p. candidate mu P g v p = v p) thrusters")
    case True
    then show ?thesis by (simp add: minimize.simps less_double_irrefl)
  next
    case False
    show ?thesis
    proof (cases "cost P g (candidate mu P g v) < cost P g v")
      case True
      have "\<not> cost P g (candidate mu P g v)
          < cost P g (fst (minimize n (Suc k) mu P g (candidate mu P g v)))"
        by (rule Suc.IH)
      with True have "\<not> cost P g v
          < cost P g (fst (minimize n (Suc k) mu P g (candidate mu P g v)))"
        by (rule less_double_step)
      with True False show ?thesis by (simp add: minimize.simps)
    next
      case no: False
      with False Suc.IH [of v "Suc k" "mu / 2"] show ?thesis by (simp add: minimize.simps)
    qed
  qed
qed



lemma Solve_descent: "\<not> cost P g v < cost P g (fst (Solve opts P g v))"
  by (simp add: Solve_def minimize_descent less_double_irrefl)

lemma Solve_zero_cost: "cost P g v = Num 0 \<Longrightarrow> fst (Solve opts P g v) = v"
  by (simp add: Solve_def minimize_zero_cost)

lemma Solve_nan: "cost P g v = NaN \<Longrightarrow> fst (Solve opts P g v) = v"
  by (simp add: Solve_def)

lemma gradient_unused:
  assumes "unused p"
  shows "gradient problem_setup g v p = Num 0 \<or> gradient problem_setup g v p = NaN"
proof (cases "rotation_matrix g")
  case None
  then show ?thesis
    by (simp add: gradient_def jacobian_def residual_blocks_setup evaluate_def
        AutoDiffCostFunction10_def linear_nan)
next
  case (Some m)
  from assms show ?thesis
    unfolding unused_def
    by (elim disjE)
      (simp_all add: gradient_def jacobian_def residual_blocks_setup evaluate_def
        AutoDiffCostFunction10_def AutoDiffCostFunction8_def AutoDiffCostFunction6_def
        linear_number [OF Some] roll_def pitch_def yaw_def)
qed

lemma clip_setup_zero: "clip problem_setup p 0 = 0"
  by (simp add: clip_def lower_bounds_setup upper_bounds_setup MIN_THRUST_def MAX_THRUST_def)

lemma candidate_unused:
  "unused p \<Longrightarrow> v p = 0 \<Longrightarrow> candidate mu problem_setup g v p = 0"
  using gradient_unused [of p g v]
  by (auto simp: candidate_def tabulate_id clip_setup_zero)

lemma minimize_unused:
  "\<forall>p. unused p \<longrightarrow> v p = 0 \<Longrightarrow> unused q \<Longrightarrow> fst (minimize n k mu problem_setup g v) q = 0"
proof (induction n arbitrary: k mu v)
  case 0
  then show ?case by (simp add: minimize.simps)
next
  case (Suc n)
  have "\<forall>p. unused p \<longrightarrow> candidate mu problem_setup g v p = 0"
    using Suc.prems(1) by (simp add: candidate_unused)
  then have "fst (minimize n (Suc k) mu problem_setup g (candidate mu problem_setup g v)) q = 0"
    using Suc.prems(2) by (rule Suc.IH)
  moreover have "fst (minimize n (Suc k) (mu / 2) problem_setup g v) q = 0"
    using Suc.prems by (rule Suc.IH)
  ultimately show ?case using Suc.prems by (simp add: minimize.simps)
qed

lemma Solve_unused:
  "\<forall>p. unused p \<longrightarrow> v p = 0 \<Longrightarrow> unused q \<Longrightarrow> fst (Solve opts problem_setup g v) q = 0"
  by (simp add: Solve_def minimize_unused)

lemma zero_guess:
  "v(Surge_stbd_hi := 0, Surge_port_hi := 0, Surge_port_lo := 0, Surge_stbd_lo := 0,
     Sway_fwd := 0, Sway_aft := 0, Heave_port_aft := 0, Heave_stbd_aft := 0,
     Heave_stbd_fwd := 0, Heave_port_fwd := 0) = (\<lambda>p. 0::real)"
proof
  fix p show "(v(Surge_stbd_hi := 0, Surge_port_hi := 0, Surge_port_lo := 0, Surge_stbd_lo := 0,
     Sway_fwd := 0, Sway_aft := 0, Heave_port_aft := 0, Heave_stbd_aft := 0,
     Heave_stbd_fwd := 0, Heave_port_fwd := 0)) p = (0::real)"
    by (cases p) simp_all
qed

lemma callback_with_glob: "glob (callback_with solve a now c) = store_command a (glob c)"
  by (simp add: callback_with_def store_command_def Let_def)

lemma callback_with_problem: "problem (callback_with solve a now c) = problem c"
  by (simp add: callback_with_def Let_def)

lemma callback_with_options: "options (callback_with solve a now c) = options c"
  by (simp add: callback_with_def Let_def)

lemma callback_with_vars:
  "vars (callback_with solve a now c) =
     fst (solve (options c) (problem c) (store_command a (glob c)) (\<lambda>p. 0))"
  by (simp add: callback_with_def store_command_def Let_def zero_guess)


lemma callback_with_cmd_pub:
  "cmd_pub (callback_with solve a now c) = cmd_pub c @ [thrust (callback_with solve a now c)]"
  by (simp add: callback_with_def Let_def)

lemma callback_with_force:
  "force (thrust (callback_with solve a now c)) =
     (let v = vars (callback_with solve a now c) in
      \<lparr>surge_stbd_hi = v Surge_stbd_hi, surge_port_hi = v Surge_port_hi,
       surge_port_lo = v Surge_port_lo, surge_stbd_lo = v Surge_stbd_lo,
       sway_fwd = v Sway_fwd, sway_aft = v Sway_aft,
       heave_port_aft = v Heave_port_aft, heave_stbd_aft = v Heave_stbd_aft,
       heave_stbd_fwd = v Heave_stbd_fwd, heave_port_fwd = v Heave_port_fwd\<rparr>)"
  by (simp add: callback_with_def Let_def)

lemma state_problem: "problem (state msg c) = problem c \<and> options (state msg c) = options c"
  by (simp add: state_def Let_def)

lemma reachable_setup:
  "reachable listener c \<Longrightarrow>
     problem c = problem_setup \<and>
     options c = \<lparr>max_num_iterations = 100, linear_solver_type = DENSE_QR\<rparr>"
proof (induction rule: reachable.induct)
  case start
  show ?case by (simp add: ThrusterController_init_def)
next
  case (inertial c msg)
  then show ?case by (simp add: state_problem)
next
  case (command c a now)
  then show ?case by (simp add: callback_def callback_with_problem callback_with_options)
qed

lemma zero_feasible: "feasible problem_setup (\<lambda>p. 0)"
  by (simp add: feasible_setup MIN_THRUST_def MAX_THRUST_def)

text \<open>
  Claim C1. In every state that the controller can reach, a command event publishes a
  message in which each of the ten forces lies between \<open>MIN_THRUST\<close> and \<open>MAX_THRUST\<close>,
  that is between \<open>-5\<close> and \<open>5\<close> newtons.
\<close>

theorem published_forces_within_bounds:
  assumes "reachable listener c"
  shows "within_bounds (force (last (cmd_pub (callback a now c)))) \<and>
         MIN_THRUST = - 5 \<and> MAX_THRUST = 5"
proof -
  let ?v = "vars (callback a now c)"
  have "problem c = problem_setup" using assms reachable_setup by blast
  then have "feasible problem_setup ?v"
    by (simp add: callback_def callback_with_vars Solve_feasible zero_feasible)
  then have "\<forall>p. MIN_THRUST \<le> ?v p \<and> ?v p \<le> MAX_THRUST" by (simp add: feasible_setup)
  then have "within_bounds (force (last (cmd_pub (callback a now c))))"
    by (simp add: callback_def callback_with_cmd_pub callback_with_force within_bounds_def
        Let_def)
  then show ?thesis by (simp add: MIN_THRUST_def MAX_THRUST_def)
qed

theorem published_forces_within_bounds_witness:
  "reachable origin_listener (ThrusterController_init origin_listener) \<and>
   within_bounds (force (last (cmd_pub
     (callback surge_command 1 (ThrusterController_init origin_listener)))))"
  using published_forces_within_bounds [OF reachable.start,
      where a = surge_command and now = 1 and listener = origin_listener]
  by (simp add: reachable.start)

text \<open>
  Claim C3. Two command events with the same command, handled in controllers that agree
  on the rotation matrix, the angular velocity, the thruster geometry, the problem and
  the options, publish the same ten forces, whatever the unknowns, the stored commands
  and the clock were before, and whatever function of its arguments the solver is.
\<close>

theorem same_inputs_same_forces:
  assumes "problem c1 = problem c2" and "options c1 = options c2"
    and "rotation_matrix (glob c1) = rotation_matrix (glob c2)"
    and "ang_v (glob c1) = ang_v (glob c2)"
    and "v_imu (glob c1) = v_imu (glob c2)"
    and "pos_surge_stbd_hi (glob c1) = pos_surge_stbd_hi (glob c2)"
    and "pos_surge_port_hi (glob c1) = pos_surge_port_hi (glob c2)"
    and "pos_surge_port_lo (glob c1) = pos_surge_port_lo (glob c2)"
    and "pos_surge_stbd_lo (glob c1) = pos_surge_stbd_lo (glob c2)"
    and "pos_sway_fwd (glob c1) = pos_sway_fwd (glob c2)"
    and "pos_sway_aft (glob c1) = pos_sway_aft (glob c2)"
    and "pos_heave_port_aft (glob c1) = pos_heave_port_aft (glob c2)"
    and "pos_heave_stbd_aft (glob c1) = pos_heave_stbd_aft (glob c2)"
    and "pos_heave_stbd_fwd (glob c1) = pos_heave_stbd_fwd (glob c2)"
    and "pos_heave_port_fwd (glob c1) = pos_heave_port_fwd (glob c2)"
  shows "force (last (cmd_pub (callback_with solve a now1 c1))) =
         force (last (cmd_pub (callback_with solve a now2 c2)))"
proof -
  have "store_command a (glob c1) = store_command a (glob c2)"
    using assms(3-15) by (intro globals.equality) (simp_all add: store_command_def)
  then have "vars (callback_with solve a now1 c1) = vars (callback_with solve a now2 c2)"
    using assms(1,2) by (simp add: callback_with_vars)
  then show ?thesis by (simp add: callback_with_cmd_pub callback_with_force)
qed

theorem same_inputs_same_forces_witness:
  "cmdSurge (glob (callback surge_command 5 (ThrusterController_init origin_listener)))
     \<noteq> cmdSurge (glob (ThrusterController_init origin_listener)) \<and>
   force (last (cmd_pub
     (callback_with Solve zero_command 1 (ThrusterController_init origin_listener)))) =
   force (last (cmd_pub
     (callback_with Solve zero_command 2
        (callback surge_command 5 (ThrusterController_init origin_listener)))))"
  using same_inputs_same_forces [of "ThrusterController_init origin_listener"
      "callback surge_command 5 (ThrusterController_init origin_listener)" Solve zero_command 1 2]
  by (simp add: callback_def callback_with_problem callback_with_options callback_with_glob
      store_command_def surge_command_def ThrusterController_init_def)

lemma state_glob:
  "glob (state msg c) = (glob c)
     \<lparr>rotation_matrix :=
        Option.bind (Option.bind (quaternionMsgToTF (orientation msg)) normalized) setRotation,
      ang_v := angular_velocity msg\<rparr>"
  by (simp add: state_def Let_def vector3MsgToTF_def)

lemma zero_quaternion_nan:
  "length2 (orientation msg) = 0 \<Longrightarrow> rotation_matrix (glob (state msg c)) = None"
  by (simp add: state_glob quaternionMsgToTF_def normalized_def QUATERNION_TOLERANCE_def)

lemma residuals_at_rest:
  assumes "ang_v g = Vector3 0 0 0" and "rotation_matrix g = Some m"
  shows "residuals problem_setup (store_command zero_command g) (\<lambda>p. 0)
    = [Num 0, Num 0, Num 0, Num 0, Num 0, Num 0]"
proof -
  have "rotation_matrix (store_command zero_command g) = Some m"
    using assms(2) by (simp add: store_command_def)
  then show ?thesis
    using assms(1)
    by (simp add: residuals_setup linear_number store_command_def zero_command_def
        roll_def pitch_def yaw_def)
qed

lemma residuals_at_rest_nan:
  assumes "ang_v g = Vector3 0 0 0" and "rotation_matrix g = None"
  shows "residuals problem_setup (store_command zero_command g) (\<lambda>p. 0)
    = [NaN, NaN, NaN, Num 0, Num 0, Num 0]"
proof -
  have "rotation_matrix (store_command zero_command g) = None"
    using assms(2) by (simp add: store_command_def)
  then show ?thesis
    using assms(1)
    by (simp add: residuals_setup linear_nan store_command_def zero_command_def
        roll_def pitch_def yaw_def)
qed

lemma zero_command_at_rest:
  assumes "reachable listener c" and "ang_v (glob c) = Vector3 0 0 0"
    and "rotation_matrix (glob c) = Some m"
  shows "force (last (cmd_pub (callback zero_command now c))) = zero_Thrust \<and>
         residuals (problem (callback zero_command now c)) (glob (callback zero_command now c))
           (vars (callback zero_command now c)) = [Num 0, Num 0, Num 0, Num 0, Num 0, Num 0]"
proof -
  let ?g = "store_command zero_command (glob c)"
  have P: "problem c = problem_setup" using assms(1) reachable_setup by blast
  have R: "residuals problem_setup ?g (\<lambda>p. 0) = [Num 0, Num 0, Num 0, Num 0, Num 0, Num 0]"
    using assms(2,3) by (rule residuals_at_rest)
  then have "cost problem_setup ?g (\<lambda>p. 0) = Num 0" by (simp add: cost_def)
  then have V: "vars (callback zero_command now c) = (\<lambda>p. 0)"
    by (simp add: callback_def callback_with_vars P Solve_zero_cost)
  have "force (last (cmd_pub (callback zero_command now c))) = zero_Thrust"
    using V by (simp add: callback_def callback_with_cmd_pub callback_with_force zero_Thrust_def)
  moreover have "residuals (problem (callback zero_command now c))
      (glob (callback zero_command now c)) (vars (callback zero_command now c))
      = [Num 0, Num 0, Num 0, Num 0, Num 0, Num 0]"
    using V R P by (simp add: callback_def callback_with_problem callback_with_glob)
  ultimately show ?thesis by simp
qed

text \<open>
  Claim C4, at the input where it fails. After an inertial event with the zero quaternion
  and zero angular velocity, the value of a default-constructed message, the stored
  angular velocity is zero and a command of six zeros publishes force zero for every
  thruster, but the surge, sway and heave residuals are not-a-number, not zero: the
  rotation matrix they read holds not-a-numbers. Where the stored matrix holds numbers
  the claim holds (\<open>zero_command_at_rest\<close>).
\<close>

theorem zero_command_after_zero_quaternion:
  "ang_v (glob (state zero_orientation (ThrusterController_init origin_listener)))
     = Vector3 0 0 0 \<and>
   force (last (cmd_pub (callback zero_command 1
     (state zero_orientation (ThrusterController_init origin_listener))))) = zero_Thrust \<and>
   residuals
     (problem (callback zero_command 1
        (state zero_orientation (ThrusterController_init origin_listener))))
     (glob (callback zero_command 1
        (state zero_orientation (ThrusterController_init origin_listener))))
     (vars (callback zero_command 1
        (state zero_orientation (ThrusterController_init origin_listener))))
     = [NaN, NaN, NaN, Num 0, Num 0, Num 0]"
proof -
  let ?c = "state zero_orientation (ThrusterController_init origin_listener)"
  let ?g = "store_command zero_command (glob ?c)"
  have A: "ang_v (glob ?c) = Vector3 0 0 0"
    by (simp add: state_glob zero_orientation_def)
  have N: "rotation_matrix (glob ?c) = None"
    by (rule zero_quaternion_nan) (simp add: zero_orientation_def length2_def)
  have P: "problem ?c = problem_setup"
    using reachable_setup [OF reachable.inertial [OF reachable.start]] by blast
  have R: "residuals problem_setup ?g (\<lambda>p. 0) = [NaN, NaN, NaN, Num 0, Num 0, Num 0]"
    using A N by (rule residuals_at_rest_nan)
  then have "cost problem_setup ?g (\<lambda>p. 0) = NaN" by (simp add: cost_def)
  then have V: "vars (callback zero_command 1 ?c) = (\<lambda>p. 0)"
    by (simp add: callback_def callback_with_vars P Solve_nan)
  have F: "force (last (cmd_pub (callback zero_command 1 ?c))) = zero_Thrust"
    using V by (simp add: callback_def callback_with_cmd_pub callback_with_force zero_Thrust_def)
  have "residuals (problem (callback zero_command 1 ?c)) (glob (callback zero_command 1 ?c))
      (vars (callback zero_command 1 ?c)) = [NaN, NaN, NaN, Num 0, Num 0, Num 0]"
    using V R P by (simp add: callback_def callback_with_problem callback_with_glob)
  with A F show ?thesis by simp
qed








text \<open>
  Claim C9. In every reachable state a command event publishes force zero for
  \<open>surge_port_hi\<close>, \<open>surge_stbd_hi\<close>, \<open>sway_fwd\<close>, \<open>sway_aft\<close>, \<open>heave_port_aft\<close> and
  \<open>heave_stbd_aft\<close>.
\<close>

theorem unused_thrusters_publish_zero:
  assumes "reachable listener c"
  shows "surge_port_hi (force (last (cmd_pub (callback a now c)))) = 0 \<and>
         surge_stbd_hi (force (last (cmd_pub (callback a now c)))) = 0 \<and>
         sway_fwd (force (last (cmd_pub (callback a now c)))) = 0 \<and>
         sway_aft (force (last (cmd_pub (callback a now c)))) = 0 \<and>
         heave_port_aft (force (last (cmd_pub (callback a now c)))) = 0 \<and>
         heave_stbd_aft (force (last (cmd_pub (callback a now c)))) = 0"
proof -
  have P: "problem c = problem_setup" using assms reachable_setup by blast
  have "vars (callback a now c) q = 0" if "unused q" for q
    using that by (simp add: callback_def callback_with_vars P Solve_unused)
  then show ?thesis
    by (simp add: callback_def callback_with_cmd_pub callback_with_force Let_def unused_def)
qed

theorem unused_thrusters_publish_zero_witness:
  "reachable origin_listener (ThrusterController_init origin_listener) \<and>
   sway_fwd (force (last (cmd_pub
     (callback surge_command 1 (ThrusterController_init origin_listener))))) = 0"
  using unused_thrusters_publish_zero [OF reachable.start,
      where a = surge_command and now = 1 and listener = origin_listener]
  by (simp add: reachable.start)

lemma residuals_ignore_unused:
  "unused q \<Longrightarrow> residuals problem_setup g (v(q := t)) = residuals problem_setup g v"
  unfolding unused_def
  by (elim disjE)
    (simp_all add: residuals_setup surge_def sway_def heave_def roll_def pitch_def yaw_def)

lemma unit_quaternion_rotation:
  fixes a b c d :: real
  assumes u: "a * a + b * b + c * c + d * d = 1"
  shows "is_rotation
     (Matrix3x3 (Vector3 (1 - (b * (b * 2) + c * (c * 2))) (a * (b * 2) - d * (c * 2))
                   (a * (c * 2) + d * (b * 2)))
                (Vector3 (a * (b * 2) + d * (c * 2)) (1 - (a * (a * 2) + c * (c * 2)))
                   (b * (c * 2) - d * (a * 2)))
                (Vector3 (a * (c * 2) - d * (b * 2)) (b * (c * 2) + d * (a * 2))
                   (1 - (a * (a * 2) + b * (b * 2)))))"
  unfolding is_rotation_def dot_def determinant_def Matrix3x3.sel Vector3.sel
  using u by (intro conjI) algebra+

lemma normalized_unit:
  assumes "length2 q \<noteq> 0"
  shows "\<exists>q'. normalized q = Some q' \<and> length2 q' = 1"
proof -
  have nonneg: "0 \<le> length2 q" by (simp add: length2_def)
  let ?n = "sqrt (length2 q)"
  have n0: "?n \<noteq> 0" using assms by simp
  have n2: "?n * ?n = length2 q" using nonneg by simp
  have "length2 (Quaternion (qx q / ?n) (qy q / ?n) (qz q / ?n) (qw q / ?n))
      = length2 q / (?n * ?n)"
    by (simp only: length2_def Quaternion.sel times_divide_times_eq add_divide_distrib)
  also have "\<dots> = 1" using assms n2 by simp
  finally show ?thesis using n0 by (simp add: normalized_def)
qed

lemma quaternionMsgToTF_nonzero:
  assumes "length2 q \<noteq> 0"
  shows "\<exists>tf. quaternionMsgToTF q = Some tf \<and> length2 tf \<noteq> 0"
proof (cases "\<bar>length2 q - 1\<bar> > QUATERNION_TOLERANCE")
  case True
  then show ?thesis using normalized_unit [OF assms] by (auto simp: quaternionMsgToTF_def)
next
  case False
  then show ?thesis using assms by (simp add: quaternionMsgToTF_def)
qed

lemma setRotation_unit:
  assumes "length2 q = 1"
  shows "\<exists>m. setRotation q = Some m \<and> is_rotation m"
proof (cases q)
  case (Quaternion a b c d)
  with assms have u: "a * a + b * b + c * c + d * d = 1" by (simp add: length2_def)
  then show ?thesis
    using unit_quaternion_rotation [OF u]
    by (simp add: setRotation_def Quaternion length2_def Let_def)
qed

lemma normalized_of_unit:
  assumes "length2 q = 1"
  shows "normalized q = Some q"
  using assms by (simp add: normalized_def)

lemma state_rotation_matrix:
  "rotation_matrix (glob (state msg c)) = Option.bind (normalized (orientation msg)) setRotation"
proof (cases "length2 (orientation msg) = 0")
  case True
  then show ?thesis
    by (simp add: zero_quaternion_nan normalized_def)
next
  case False
  show ?thesis
  proof (cases "\<bar>length2 (orientation msg) - 1\<bar> > QUATERNION_TOLERANCE")
    case True
    obtain q' where q: "normalized (orientation msg) = Some q'" and "length2 q' = 1"
      using normalized_unit [OF False] by blast
    then have "normalized q' = Some q'" by (simp add: normalized_of_unit)
    then show ?thesis using True q by (simp add: state_glob quaternionMsgToTF_def)
  next
    case no: False
    then show ?thesis by (simp add: state_glob quaternionMsgToTF_def)
  qed
qed

lemma state_stores_rotation:
  assumes "length2 (orientation msg) \<noteq> 0"
  shows "\<exists>m. rotation_matrix (glob (state msg c)) = Some m \<and> is_rotation m"
proof -
  obtain q' where q: "normalized (orientation msg) = Some q'" and "length2 q' = 1"
    using normalized_unit [OF assms] by blast
  then obtain m where m: "setRotation q' = Some m" and "is_rotation m"
    using setRotation_unit by blast
  then show ?thesis by (simp add: state_rotation_matrix q m)
qed

lemma state_ang_v: "ang_v (glob (state msg c)) = angular_velocity msg"
  by (simp add: state_glob)

lemma initial_state:
  "rotation_matrix (glob (ThrusterController_init listener)) =
     Some (Matrix3x3 (Vector3 1 0 0) (Vector3 0 1 0) (Vector3 0 0 1)) \<and>
   ang_v (glob (ThrusterController_init listener)) = Vector3 0 0 0"
  by (simp add: ThrusterController_init_def setIdentity_def setZero_def)

lemma reachable_rotation:
  "reachable listener c \<Longrightarrow>
     rotation_matrix (glob c) = None \<or>
     (\<exists>m. rotation_matrix (glob c) = Some m \<and> is_rotation m)"
proof (induction rule: reachable.induct)
  case start
  show ?case
    by (simp add: initial_state is_rotation_def dot_def determinant_def)
next
  case (inertial c msg)
  show ?case
  proof (cases "length2 (orientation msg) = 0")
    case True
    then show ?thesis by (simp add: zero_quaternion_nan)
  next
    case False
    then show ?thesis using state_stores_rotation [of msg c] by blast
  qed
next
  case (command c a now)
  then show ?case by (simp add: callback_def callback_with_glob store_command_def)
qed

text \<open>
  Claim C10, at the input where it fails. An inertial event whose orientation is the zero
  quaternion, the value of a default-constructed message, makes the handler divide zero
  by zero: the matrix it stores holds not-a-numbers and is no rotation. For every other
  orientation the stored matrix is a rotation (\<open>state_stores_rotation\<close>), and the
  constructor leaves the identity and a zero angular velocity (\<open>initial_state\<close>).
\<close>

theorem zero_quaternion_stores_no_rotation:
  "rotation_matrix (glob (state zero_orientation (ThrusterController_init origin_listener)))
     = None"
  by (rule zero_quaternion_nan) (simp add: zero_orientation_def length2_def)

text \<open>
  Claim C2 fails: with the identity rotation and one newton on each lateral thruster, the
  sway residual of the source is that of no force at all, while the sum over the ten
  thrusters through the nominal mounting is two newtons.
\<close>

theorem sway_ignores_lateral_thrusters:
  "residuals problem_setup (glob (ThrusterController_init origin_listener)) lateral_only ! 1
     \<noteq> spec_net_force (rotation_matrix (glob (ThrusterController_init origin_listener)))
         nominal_mounting 1 lateral_only / Num MASS
       - Num (cmdSway (glob (ThrusterController_init origin_listener)))"
  by (simp add: residuals_setup sway_def spec_net_force_def projection_def thrusters_def
      lateral_only_def ThrusterController_init_def setIdentity_def getRow_def entry_x_def
      entry_z_def dot_def MASS_def)

text \<open>
  Claim C2, amended. For each translational axis the net force in the residual is the sum
  over the ten thrusters of the force times the component along that axis of the
  direction the functors use: body \<open>x\<close> for \<open>surge_port_lo\<close> and \<open>surge_stbd_lo\<close>, body \<open>z\<close>
  for \<open>heave_port_fwd\<close> and \<open>heave_stbd_fwd\<close>, and the zero vector for the six others, so
  that the lateral thrusters contribute to no translational equation.
\<close>

theorem linear_residuals_use_four_thrusters:
  "residuals problem_setup g v ! 0 =
     spec_net_force (rotation_matrix g) used_mounting 0 v / Num MASS - Num (cmdSurge g) \<and>
   residuals problem_setup g v ! 1 =
     spec_net_force (rotation_matrix g) used_mounting 1 v / Num MASS - Num (cmdSway g) \<and>
   residuals problem_setup g v ! 2 =
     spec_net_force (rotation_matrix g) used_mounting 2 v / Num MASS - Num (cmdHeave g)"
proof (cases "rotation_matrix g")
  case None
  then show ?thesis
    by (simp add: residuals_setup linear_nan spec_net_force_def projection_def thrusters_def
        getRow_def)
next
  case (Some m)
  then show ?thesis
    by (simp add: residuals_setup linear_number spec_net_force_def projection_def
        thrusters_def getRow_def dot_def MASS_nonzero algebra_simps)
qed

text \<open>
  Claim C7 fails: a command of \<open>10 ^ 30\<close> metres per second squared and an angular velocity
  of \<open>10 ^ 30\<close> radians per second are stored like any other value.
\<close>

theorem out_of_range_events_are_stored:
  "\<not> retained (ThrusterController_init origin_listener)
       (callback out_of_range_command 1 (ThrusterController_init origin_listener)) \<and>
   state out_of_range_imu (ThrusterController_init origin_listener) =
     (ThrusterController_init origin_listener)
       \<lparr>glob := (glob (ThrusterController_init origin_listener))
          \<lparr>rotation_matrix := Some setIdentity, ang_v := Vector3 (10 ^ 30) 0 0\<rparr>\<rparr> \<and>
   \<not> retained (ThrusterController_init origin_listener)
       ((ThrusterController_init origin_listener)
          \<lparr>glob := (glob (ThrusterController_init origin_listener))
             \<lparr>rotation_matrix := Some setIdentity, ang_v := Vector3 (10 ^ 30) 0 0\<rparr>\<rparr>)"
proof -
  have "cmdSurge (glob (callback out_of_range_command 1
      (ThrusterController_init origin_listener))) = 10 ^ 30"
    by (simp add: callback_def callback_with_glob store_command_def out_of_range_command_def)
  moreover have "cmdSurge (glob (ThrusterController_init origin_listener)) = 0"
    by (simp add: ThrusterController_init_def)
  ultimately have "glob (callback out_of_range_command 1
      (ThrusterController_init origin_listener)) \<noteq> glob (ThrusterController_init origin_listener)"
    by (metis power_not_zero zero_neq_numeral)
  then have 1: "\<not> retained (ThrusterController_init origin_listener)
       (callback out_of_range_command 1 (ThrusterController_init origin_listener))"
    by (simp add: retained_def)
  have 2: "state out_of_range_imu c = c\<lparr>glob := (glob c)
      \<lparr>rotation_matrix := Some setIdentity, ang_v := Vector3 (10 ^ 30) 0 0\<rparr>\<rparr>" for c
    by (simp add: state_def out_of_range_imu_def quaternionMsgToTF_def length2_def
        QUATERNION_TOLERANCE_def normalized_def setRotation_def setIdentity_def
        vector3MsgToTF_def)
  have "ang_v (glob (ThrusterController_init origin_listener)) = Vector3 0 0 0"
    by (simp add: initial_state)
  then have 3: "\<not> retained (ThrusterController_init origin_listener)
       ((ThrusterController_init origin_listener)
          \<lparr>glob := (glob (ThrusterController_init origin_listener))
             \<lparr>rotation_matrix := Some setIdentity, ang_v := Vector3 (10 ^ 30) 0 0\<rparr>\<rparr>)"
    by (auto simp: retained_def dest!: arg_cong [where f = ang_v])
  from 1 2 3 show ?thesis by simp
qed

text \<open>
  Claim C7, amended. No event is validated. Every command event stores its six values,
  whatever they are, and publishes one message, whatever the solver does. Every inertial
  event stores its angular velocity, whatever it is, and, when its quaternion is not
  zero, the rotation matrix of its normalised quaternion.
\<close>

theorem events_are_stored_unchecked:
  "cmdSurge (glob (callback_with solve a now c)) = getX (accel_linear a) \<and>
   cmdSway (glob (callback_with solve a now c)) = getY (accel_linear a) \<and>
   cmdHeave (glob (callback_with solve a now c)) = getZ (accel_linear a) \<and>
   cmdRoll (glob (callback_with solve a now c)) = getX (accel_angular a) \<and>
   cmdPitch (glob (callback_with solve a now c)) = getY (accel_angular a) \<and>
   cmdYaw (glob (callback_with solve a now c)) = getZ (accel_angular a) \<and>
   length (cmd_pub (callback_with solve a now c)) = Suc (length (cmd_pub c)) \<and>
   ang_v (glob (state msg c)) = angular_velocity msg \<and>
   (length2 (orientation msg) \<noteq> 0 \<longrightarrow>
      rotation_matrix (glob (state msg c)) =
        Option.bind (normalized (orientation msg)) setRotation \<and>
      (\<exists>m. rotation_matrix (glob (state msg c)) = Some m \<and> is_rotation m))"
  using state_stores_rotation [of msg c]
  by (simp add: callback_with_glob callback_with_cmd_pub store_command_def state_ang_v
      state_rotation_matrix)

theorem events_are_stored_unchecked_witness:
  "length2 (orientation out_of_range_imu) \<noteq> 0 \<and>
   cmdSurge (glob (callback out_of_range_command 1 (ThrusterController_init origin_listener)))
     = 10 ^ 30 \<and>
   ang_v (glob (state out_of_range_imu (ThrusterController_init origin_listener)))
     = Vector3 (10 ^ 30) 0 0 \<and>
   rotation_matrix (glob (state out_of_range_imu (ThrusterController_init origin_listener)))
     = Some setIdentity"
proof -
  have h: "length2 (orientation out_of_range_imu) \<noteq> 0"
    by (simp add: out_of_range_imu_def length2_def)
  have r: "Option.bind (normalized (orientation out_of_range_imu)) setRotation
      = Some setIdentity"
    by (simp add: out_of_range_imu_def normalized_def length2_def setRotation_def
        setIdentity_def)
  show ?thesis
    using events_are_stored_unchecked [of Solve out_of_range_command 1
        "ThrusterController_init origin_listener" out_of_range_imu] h r
    by (simp add: callback_def out_of_range_command_def out_of_range_imu_def)
qed

end
